theory Spec2Isabelle
  imports Complex_Main
begin

section \<open>PredSwipe: values shared by the components\<close>

text \<open>
  JavaScript numbers are modelled as exact rationals together with the three special
  values of IEEE arithmetic that the code can tell apart (\<open>isNaN\<close>, comparison with 0).
  Rounding of doubles is not modelled.
\<close>

datatype number = Finite rat | PosInfinity | NegInfinity | NaN

text \<open>A parsed JSON value; an object is the list of its properties in enumeration order.\<close>

datatype json =
    JNull
  | JBool bool
  | JNum number
  | JStr string
  | JArr "json list"
  | JObj "(string \<times> json) list"

text \<open>\<open>x / 100\<close> on numbers.\<close>

fun div100 :: "number \<Rightarrow> number" where
  "div100 (Finite r) = Finite (r / 100)"
| "div100 PosInfinity = PosInfinity"
| "div100 NegInfinity = NegInfinity"
| "div100 NaN = NaN"

definition isNaN :: "number \<Rightarrow> bool" where
  "isNaN n = (n = NaN)"

text \<open>\<open>v > 0\<close> on numbers.\<close>

fun positive :: "number \<Rightarrow> bool" where
  "positive (Finite r) = (0 < r)"
| "positive PosInfinity = True"
| "positive NegInfinity = False"
| "positive NaN = False"

text \<open>JavaScript truthiness of a value that is present.\<close>

fun truthy :: "json \<Rightarrow> bool" where
  "truthy JNull = False"
| "truthy (JBool b) = b"
| "truthy (JNum (Finite r)) = (r \<noteq> 0)"
| "truthy (JNum NaN) = False"
| "truthy (JNum PosInfinity) = True"
| "truthy (JNum NegInfinity) = True"
| "truthy (JStr s) = (s \<noteq> [])"
| "truthy (JArr xs) = True"
| "truthy (JObj kvs) = True"

text \<open>
  The built-in \<open>parseFloat\<close>. Applied to a number it gives the number back. What it
  reads out of a string (or out of the string form of any other value) is not part of
  this repository: it is the parameter \<open>pf\<close>, and nothing is assumed about it.
\<close>

definition parseFloat :: "(json \<Rightarrow> number) \<Rightarrow> json \<Rightarrow> number" where
  "parseFloat pf v = (case v of JNum n \<Rightarrow> n | _ \<Rightarrow> pf v)"

text \<open>
  The \<open>user\<close> prop. The prop itself may be null (\<open>None\<close>); a key may be undefined
  (\<open>None\<close>) or the empty string, and both are falsy.
\<close>

record user =
  username :: string
  email :: string
  kalshiApiKey :: "string option"
  kalshiPrivateKey :: "string option"

definition truthyStr :: "string option \<Rightarrow> bool" where
  "truthyStr s = (case s of None \<Rightarrow> False | Some t \<Rightarrow> t \<noteq> [])"

text \<open>The negation of the guard \<open>!user?.kalshiApiKey || !user?.kalshiPrivateKey\<close>.\<close>

definition hasKeys :: "user option \<Rightarrow> bool" where
  "hasKeys u = (case u of None \<Rightarrow> False
                | Some r \<Rightarrow> truthyStr (kalshiApiKey r) \<and> truthyStr (kalshiPrivateKey r))"

definition apiKeyOf :: "user option \<Rightarrow> string" where
  "apiKeyOf u = (case u of None \<Rightarrow> [] | Some r \<Rightarrow> (case kalshiApiKey r of None \<Rightarrow> [] | Some k \<Rightarrow> k))"

definition privateKeyOf :: "user option \<Rightarrow> string" where
  "privateKeyOf u = (case u of None \<Rightarrow> [] | Some r \<Rightarrow> (case kalshiPrivateKey r of None \<Rightarrow> [] | Some k \<Rightarrow> k))"

text \<open>An entry of the catalogue; its icon plays no part and is left out.\<close>

record category =
  cat_id :: string
  cat_name :: string
  cat_description :: string

datatype direction = Yes | No

text \<open>The \<open>fetch\<close> calls the client issues, with the fields of their bodies.\<close>

datatype request =
    BalanceRequest string string
  | MarketsRequest string string string nat
  | PlaceOrderRequest string string string direction nat

section \<open>Markets and the sample data\<close>

text \<open>
  An element of \<open>predictions\<close>. The sample entries carry a question and a price only;
  every other property is undefined (\<open>None\<close>) on them.
\<close>

record market =
  question :: "string option"
  ticker :: "string option"
  teamName :: "string option"
  matchInfo :: "string option"
  price :: number
  yes_bid :: "json option"
  no_bid :: "json option"
  yes_ask :: "json option"
  no_ask :: "json option"

definition sample :: "string \<Rightarrow> rat \<Rightarrow> market" where
  "sample q p = \<lparr> question = Some q, ticker = None, teamName = None, matchInfo = None,
                  price = Finite p, yes_bid = None, no_bid = None, yes_ask = None,
                  no_ask = None \<rparr>"

definition predictionData :: "(string \<times> market list) list" where
  "predictionData =
   [(''football'',
     [sample ''Will Manchester United win their next game?'' (45 / 100),
      sample ''Will Liverpool score more than 2 goals?'' (35 / 100),
      sample ''Will Arsenal finish in the top 4?'' (65 / 100),
      sample ''Will Chelsea win the Champions League?'' (15 / 100),
      sample ''Will Manchester City win the Premier League?'' (75 / 100),
      sample ''Will Tottenham beat their next opponent?'' (55 / 100),
      sample ''Will Newcastle finish in the top 6?'' (25 / 100),
      sample ''Will Brighton score in their next match?'' (60 / 100)]),
    (''basketball'',
     [sample ''Will the Lakers win their next game?'' (55 / 100),
      sample ''Will LeBron score more than 25 points?'' (50 / 100),
      sample ''Will the Warriors make the playoffs?'' (35 / 100),
      sample ''Will the Celtics win the Eastern Conference?'' (25 / 100),
      sample ''Will the Nuggets repeat as champions?'' (15 / 100),
      sample ''Will Luka Doncic score 30+ points?'' (60 / 100),
      sample ''Will the Heat make the Finals?'' (20 / 100),
      sample ''Will the Bucks win 50+ games?'' (70 / 100)]),
    (''tennis'',
     [sample ''Will Djokovic win the next Grand Slam?'' (40 / 100),
      sample ''Will Serena Williams return to top 10?'' (5 / 100),
      sample ''Will Nadal win the French Open?'' (30 / 100),
      sample ''Will Federer make a comeback?'' (2 / 100),
      sample ''Will Osaka win another major?'' (20 / 100),
      sample ''Will Medvedev win Wimbledon?'' (35 / 100),
      sample ''Will Halep return to form?'' (12 / 100),
      sample ''Will Thiem win a Grand Slam?'' (8 / 100)]),
    (''crypto'',
     [sample ''Will Bitcoin reach $100,000?'' (30 / 100),
      sample ''Will Ethereum outperform Bitcoin?'' (55 / 100),
      sample ''Will Solana reach $200?'' (20 / 100),
      sample ''Will Cardano hit $5?'' (5 / 100),
      sample ''Will Dogecoin reach $1?'' (1 / 100),
      sample ''Will Polygon surge 50%?'' (40 / 100),
      sample ''Will Chainlink hit $50?'' (12 / 100),
      sample ''Will Avalanche reach $100?'' (25 / 100)]),
    (''stocks'',
     [sample ''Will Apple stock reach $200?'' (60 / 100),
      sample ''Will Tesla stock surge 30%?'' (35 / 100),
      sample ''Will Amazon beat earnings?'' (55 / 100),
      sample ''Will Google stock hit $150?'' (45 / 100),
      sample ''Will Microsoft reach $400?'' (65 / 100),
      sample ''Will Netflix stock recover?'' (30 / 100),
      sample ''Will Meta stock bounce back?'' (40 / 100),
      sample ''Will Nvidia continue rising?'' (50 / 100)]),
    (''random'',
     [sample ''Will Manchester United win their next game?'' (45 / 100),
      sample ''Will Bitcoin reach $100,000?'' (30 / 100),
      sample ''Will the Lakers win their next game?'' (55 / 100),
      sample ''Will Apple stock reach $200?'' (60 / 100),
      sample ''Will Djokovic win the next Grand Slam?'' (40 / 100),
      sample ''Will Tesla stock surge 30%?'' (35 / 100),
      sample ''Will Arsenal finish in the top 4?'' (65 / 100),
      sample ''Will Ethereum outperform Bitcoin?'' (55 / 100)])]"

text \<open>\<open>predictionData.random\<close>.\<close>

definition randomPredictions :: "market list" where
  "randomPredictions = (case map_of predictionData ''random'' of Some ms \<Rightarrow> ms | None \<Rightarrow> [])"

text \<open>
  The names every object inherits from \<open>Object.prototype\<close>. A lookup
  \<open>table[key]\<close> with one of them as key finds the inherited member, not
  \<open>undefined\<close>, although the table has no such key of its own.
\<close>

definition objectPrototypeNames :: "string list" where
  "objectPrototypeNames =
     [''constructor'', ''__defineGetter__'', ''__defineSetter__'', ''hasOwnProperty'',
      ''__lookupGetter__'', ''__lookupSetter__'', ''isPrototypeOf'', ''propertyIsEnumerable'',
      ''toString'', ''valueOf'', ''__proto__'', ''toLocaleString'']"

text \<open>
  The value of \<open>predictionData[category.id] || predictionData.random\<close> for an id
  that is not an inherited name: the table's entry, or the \<open>random\<close> list when the
  table has none.
\<close>

definition categoryPredictions :: "category \<Rightarrow> market list" where
  "categoryPredictions c =
     (case map_of predictionData (cat_id c) of Some ms \<Rightarrow> ms | None \<Rightarrow> randomPredictions)"

section \<open>Ticker parsing\<close>

definition teamMap :: "(string \<times> string) list" where
  "teamMap =
   [(''MIA'', ''Miami''), (''SAS'', ''San Antonio''), (''LAL'', ''Lakers''),
    (''GSW'', ''Warriors''), (''BOS'', ''Celtics''), (''NYK'', ''Knicks''),
    (''CHI'', ''Bulls''), (''PHI'', ''76ers''), (''DAL'', ''Mavericks''),
    (''DEN'', ''Nuggets''), (''PHX'', ''Suns''), (''MIL'', ''Bucks''),
    (''BKN'', ''Nets''), (''LAC'', ''Clippers''), (''ATL'', ''Hawks''),
    (''MEM'', ''Grizzlies''), (''MIN'', ''Timberwolves''), (''NOP'', ''Pelicans''),
    (''OKC'', ''Thunder''), (''POR'', ''Trail Blazers''), (''SAC'', ''Kings''),
    (''UTA'', ''Jazz''), (''HOU'', ''Rockets''), (''CHA'', ''Hornets''),
    (''DET'', ''Pistons''), (''IND'', ''Pacers''), (''ORL'', ''Magic''),
    (''TOR'', ''Raptors''), (''WAS'', ''Wizards''), (''CLE'', ''Cavaliers'')]"

text \<open>\<open>s.split(c)\<close> for a one-character separator: never empty, \<open>''''.split\<close> is \<open>['''']\<close>.\<close>

fun split_str :: "char \<Rightarrow> string \<Rightarrow> string list" where
  "split_str c [] = [[]]"
| "split_str c (x # xs) =
     (if x = c then [] # split_str c xs
      else (case split_str c xs of [] \<Rightarrow> [[x]] | p # ps \<Rightarrow> (x # p) # ps))"

text \<open>\<open>s.includes(sub)\<close>.\<close>

fun includes_str :: "string \<Rightarrow> string \<Rightarrow> bool" where
  "includes_str [] sub = (sub = [])"
| "includes_str (x # xs) sub = (take (length sub) (x # xs) = sub \<or> includes_str xs sub)"

text \<open>\<open>xs.join(sep)\<close>.\<close>

fun join_str :: "string \<Rightarrow> string list \<Rightarrow> string" where
  "join_str sep [] = []"
| "join_str sep [x] = x"
| "join_str sep (x # y # ys) = x @ sep @ join_str sep (y # ys)"

text \<open>The loop over \<open>Object.entries(teamMap)\<close> that collects \<open>teamsInMatch\<close>.\<close>

definition teamsInMatch :: "string \<Rightarrow> string list" where
  "teamsInMatch matchString =
     map snd (filter (\<lambda>(abbr, fullName). includes_str matchString abbr) teamMap)"

text \<open>
  \<open>teamMap[teamName] || teamName\<close>; a full name is never empty. This lookup, and the
  one that builds \<open>matchInfo\<close>, are modelled for segments that are not names
  inherited from \<open>Object.prototype\<close>; the tickers of the broker end in a team
  abbreviation.
\<close>

definition teamOr :: "string \<Rightarrow> string" where
  "teamOr t = (case map_of teamMap t of Some full \<Rightarrow> full | None \<Rightarrow> t)"

text \<open>
  A raw market of the listing response. \<open>ticker\<close> and \<open>title\<close> are strings when
  present, as the broker sends them.
\<close>

record raw_market =
  raw_ticker :: "string option"
  raw_title :: "string option"
  raw_yes_bid :: "json option"
  raw_no_bid :: "json option"
  raw_yes_ask :: "json option"
  raw_no_ask :: "json option"

text \<open>\<open>market.title || market.ticker\<close>: the second operand as it is when the first is falsy.\<close>

definition defaultQuestion :: "raw_market \<Rightarrow> string option" where
  "defaultQuestion m = (if truthyStr (raw_title m) then raw_title m else raw_ticker m)"

text \<open>
  The derivation inside \<open>if (market.ticker)\<close>, for a non-empty ticker \<open>t\<close>: the
  triple (question, teamName, matchInfo), the question being \<open>None\<close> when the default
  question is kept.
\<close>

definition deriveFromTicker :: "string \<Rightarrow> string option \<times> string \<times> string" where
  "deriveFromTicker t =
     (let tickerParts = split_str CHR ''-'' t in
      if length tickerParts \<ge> 3 then
        (let team = last tickerParts;
             info =
               (if tickerParts ! 1 \<noteq> [] then
                  (let found = teamsInMatch (tickerParts ! 1) in
                   if length found \<ge> 2 then join_str '' vs '' found
                   else (case map_of teamMap team of
                           Some full \<Rightarrow> full @ '' Wins''
                         | None \<Rightarrow> []))
                else [])
         in if info \<noteq> [] \<and> team \<noteq> [] then
              (Some (info @ '' - Will '' @ teamOr team @ '' Win?''), team, info)
            else if team \<noteq> [] then
              (Some (''Will '' @ teamOr team @ '' Win?''), team, info)
            else (None, team, info))
      else (None, [], []))"

text \<open>\<open>market.yes_bid ? parseFloat(market.yes_bid) / 100 : 0.5\<close>.\<close>

definition priceOf :: "(json \<Rightarrow> number) \<Rightarrow> json option \<Rightarrow> number" where
  "priceOf pf bid =
     (case bid of
        None \<Rightarrow> Finite (1 / 2)
      | Some v \<Rightarrow> if truthy v then div100 (parseFloat pf v) else Finite (1 / 2))"

text \<open>A number within the range the data model gives a price: from 0 to 1.\<close>

fun inUnitInterval :: "number \<Rightarrow> bool" where
  "inUnitInterval (Finite p) = (0 \<le> p \<and> p \<le> 1)"
| "inUnitInterval n = False"

text \<open>The callback of \<open>markets.map\<close> that builds \<open>formattedMarkets\<close>.\<close>

definition formatMarket :: "(json \<Rightarrow> number) \<Rightarrow> raw_market \<Rightarrow> market" where
  "formatMarket pf m =
     (let (q, team, info) =
            (if truthyStr (raw_ticker m) then deriveFromTicker (the (raw_ticker m))
             else (None, [], []))
      in \<lparr> question = (case q of Some s \<Rightarrow> Some s | None \<Rightarrow> defaultQuestion m),
           ticker = raw_ticker m,
           teamName = Some team,
           matchInfo = Some info,
           price = priceOf pf (raw_yes_bid m),
           yes_bid = raw_yes_bid m,
           no_bid = raw_no_bid m,
           yes_ask = raw_yes_ask m,
           no_ask = raw_no_ask m \<rparr>)"

definition formattedMarkets :: "(json \<Rightarrow> number) \<Rightarrow> raw_market list \<Rightarrow> market list" where
  "formattedMarkets pf ms = map (formatMarket pf) ms"

section \<open>Responses of the broker proxy\<close>

text \<open>
  What an awaited \<open>fetch\<close> followed by \<open>response.json()\<close> comes to, for the three
  endpoints alike:
  \<^item> \<open>Threw msg\<close>: the \<open>fetch\<close> rejected or the body was not JSON; \<open>msg\<close> is the
    message of the error that reaches the \<open>catch\<close>;
  \<^item> \<open>NotOk e\<close>: \<open>response.ok\<close> is false and the body parsed, \<open>e\<close> being its
    \<open>error\<close> property (\<open>None\<close> when undefined);
  \<^item> \<open>Ok d\<close>: \<open>response.ok\<close> is true and \<open>d\<close> is the parsed body.
\<close>

datatype 'a response = Threw string | NotOk "string option" | Ok 'a

text \<open>\<open>errorData.error || fallback\<close>, the message of the \<open>Error\<close> thrown on a non-success.\<close>

definition errorMessage :: "string option \<Rightarrow> string \<Rightarrow> string" where
  "errorMessage e fallback = (if truthyStr e then the e else fallback)"

datatype console_line = ConsoleError string | ConsoleLog string

section \<open>SwipeInterface: the component's state\<close>

record stats =
  yes :: nat
  no :: nat

text \<open>The two callbacks handed to \<open>setTimeout\<close>: after 300 ms and after 500 ms.\<close>

datatype timeout = AdvanceCard | LoadingDone

text \<open>
  The first eight fields are the \<open>useState\<close> cells of the component. The others are
  the part of the browser the handlers act on: the requests sent so far, the console, the
  timeouts scheduled and not yet fired, the number of \<open>handleSwipe\<close> calls suspended at
  their \<open>await\<close>, and whether the listing and the balance request are outstanding.
\<close>

record swipe_state =
  currentIndex :: nat
  predictions :: "market list"
  stats :: stats
  isLoading :: bool
  error :: "string option"
  swipeDirection :: "direction option"
  accountBalance :: "number option"
  balanceLoading :: bool
  sent :: "request list"
  console :: "console_line list"
  timeouts :: "timeout list"
  ordersInFlight :: nat
  marketsInFlight :: bool
  balanceInFlight :: bool

definition initialState :: swipe_state where
  "initialState =
     \<lparr> currentIndex = 0, predictions = [], stats = \<lparr> yes = 0, no = 0 \<rparr>, isLoading = True,
       error = None, swipeDirection = None, accountBalance = None, balanceLoading = True,
       sent = [], console = [], timeouts = [], ordersInFlight = 0,
       marketsInFlight = False, balanceInFlight = False \<rparr>"

section \<open>Balance Fetcher\<close>

text \<open>\<open>data.k\<close>, with \<open>None\<close> for \<open>undefined\<close>.\<close>

definition getProp :: "(string \<times> json) list \<Rightarrow> string \<Rightarrow> json option" where
  "getProp data k = map_of data k"

text \<open>\<open>typeof data.balance === 'number' ? data.balance / 100 : parseFloat(data.balance) / 100\<close>.\<close>

definition centsToDecimal :: "(json \<Rightarrow> number) \<Rightarrow> json \<Rightarrow> number" where
  "centsToDecimal pf v = (case v of JNum n \<Rightarrow> div100 n | _ \<Rightarrow> div100 (parseFloat pf v))"

text \<open>The local \<open>balance\<close> of \<open>fetchBalance\<close> in SwipeInterface; \<open>None\<close> is \<open>null\<close>.\<close>

definition balanceOf :: "(json \<Rightarrow> number) \<Rightarrow> (string \<times> json) list \<Rightarrow> number option" where
  "balanceOf pf data =
     (case getProp data ''balance'' of
        Some v \<Rightarrow> Some (centsToDecimal pf v)
      | None \<Rightarrow>
          (case getProp data ''balance_cents'' of
             Some v \<Rightarrow> Some (div100 (parseFloat pf v))
           | None \<Rightarrow> None))"

text \<open>\<open>Object.values(data).filter(v => typeof v === 'number' && v > 0)\<close>.\<close>

fun numericField :: "json \<Rightarrow> bool" where
  "numericField (JNum n) = positive n"
| "numericField v = False"

fun numberOf :: "json \<Rightarrow> number" where
  "numberOf (JNum n) = n"
| "numberOf v = NaN"

definition numericFields :: "(string \<times> json) list \<Rightarrow> json list" where
  "numericFields data = filter numericField (map snd data)"

text \<open>The local \<open>balance\<close> of \<open>fetchBalance\<close> in CategorySelection.\<close>

definition cs_balanceOf :: "(json \<Rightarrow> number) \<Rightarrow> (string \<times> json) list \<Rightarrow> number option" where
  "cs_balanceOf pf data =
     (case getProp data ''balance'' of
        Some v \<Rightarrow> Some (centsToDecimal pf v)
      | None \<Rightarrow>
          (case getProp data ''balance_cents'' of
             Some v \<Rightarrow> Some (div100 (parseFloat pf v))
           | None \<Rightarrow>
               (case getProp data ''account_balance'' of
                  Some v \<Rightarrow> Some (parseFloat pf v)
                | None \<Rightarrow>
                    (case getProp data ''portfolio_balance'' of
                       Some v \<Rightarrow> Some (parseFloat pf v)
                     | None \<Rightarrow>
                         (case numericFields data of
                            [] \<Rightarrow> None
                          | v # vs \<Rightarrow> Some (div100 (numberOf v)))))))"

text \<open>\<open>if (balance !== null && !isNaN(balance))\<close>.\<close>

definition usable :: "number option \<Rightarrow> bool" where
  "usable b = (case b of None \<Rightarrow> False | Some n \<Rightarrow> \<not> isNaN n)"

subsection \<open>In SwipeInterface\<close>

text \<open>\<open>fetchBalance\<close> up to its \<open>await\<close>.\<close>

definition fetchBalance_start :: "user option \<Rightarrow> swipe_state \<Rightarrow> swipe_state" where
  "fetchBalance_start u s =
     (if \<not> hasKeys u then s\<lparr> balanceLoading := False \<rparr>
      else s\<lparr> sent := sent s @ [BalanceRequest (apiKeyOf u) (privateKeyOf u)],
              balanceInFlight := True \<rparr>)"

text \<open>\<open>fetchBalance\<close> from its \<open>await\<close> on, the response being \<open>r\<close>.\<close>

definition fetchBalance_settle ::
  "(json \<Rightarrow> number) \<Rightarrow> (string \<times> json) list response \<Rightarrow> swipe_state \<Rightarrow> swipe_state" where
  "fetchBalance_settle pf r s =
     (let s1 =
        (case r of
           Ok data \<Rightarrow>
             (if usable (balanceOf pf data) then s\<lparr> accountBalance := balanceOf pf data \<rparr>
              else s)
         | NotOk e \<Rightarrow>
             s\<lparr> console := console s @
                  [ConsoleError (''Error fetching balance: '' @
                                 errorMessage e ''Failed to fetch balance'')] \<rparr>
         | Threw msg \<Rightarrow>
             s\<lparr> console := console s @ [ConsoleError (''Error fetching balance: '' @ msg)] \<rparr>)
      in s1\<lparr> balanceLoading := False, balanceInFlight := False \<rparr>)"

definition fetchBalance ::
  "(json \<Rightarrow> number) \<Rightarrow> user option \<Rightarrow> (string \<times> json) list response \<Rightarrow> swipe_state
   \<Rightarrow> swipe_state" where
  "fetchBalance pf u r s =
     (if hasKeys u then fetchBalance_settle pf r (fetchBalance_start u s)
      else fetchBalance_start u s)"

datatype balance_view = ViewLoading | ViewError | ViewAmount number | ViewPlaceholder

text \<open>The \<open>account-balance\<close> element of the card screen.\<close>

definition balanceView :: "swipe_state \<Rightarrow> balance_view" where
  "balanceView s =
     (if balanceLoading s then ViewLoading
      else (case accountBalance s of
              None \<Rightarrow> ViewPlaceholder
            | Some b \<Rightarrow> if \<not> isNaN b then ViewAmount b else ViewPlaceholder))"

subsection \<open>In CategorySelection\<close>

record category_selection =
  cs_selectedCategory :: "category option"
  cs_accountBalance :: "number option"
  cs_balanceLoading :: bool
  cs_balanceError :: "string option"
  cs_sent :: "request list"
  cs_console :: "console_line list"

definition cs_initialState :: category_selection where
  "cs_initialState =
     \<lparr> cs_selectedCategory = None, cs_accountBalance = None, cs_balanceLoading = True,
       cs_balanceError = None, cs_sent = [], cs_console = [] \<rparr>"

definition cs_failed :: "string \<Rightarrow> category_selection \<Rightarrow> category_selection" where
  "cs_failed msg s =
     s\<lparr> cs_console := cs_console s @ [ConsoleError (''Error fetching balance: '' @ msg)],
        cs_balanceError := Some msg \<rparr>"

text \<open>\<open>fetchBalance\<close> of CategorySelection, run to its end on the response \<open>r\<close>.\<close>

definition cs_fetchBalance ::
  "(json \<Rightarrow> number) \<Rightarrow> user option \<Rightarrow> (string \<times> json) list response \<Rightarrow> category_selection
   \<Rightarrow> category_selection" where
  "cs_fetchBalance pf u r s =
     (if \<not> hasKeys u then s\<lparr> cs_balanceLoading := False \<rparr>
      else
        (let s0 = s\<lparr> cs_balanceLoading := True,
                      cs_sent := cs_sent s @ [BalanceRequest (apiKeyOf u) (privateKeyOf u)] \<rparr>;
             s1 =
               (case r of
                  Ok data \<Rightarrow>
                    (if usable (cs_balanceOf pf data)
                     then s0\<lparr> cs_accountBalance := cs_balanceOf pf data,
                              cs_balanceError := None \<rparr>
                     else cs_failed ''Unable to parse balance from response'' s0)
                | NotOk e \<Rightarrow> cs_failed (errorMessage e ''Failed to fetch balance'') s0
                | Threw msg \<Rightarrow> cs_failed msg s0)
         in s1\<lparr> cs_balanceLoading := False \<rparr>))"

text \<open>The \<open>balance-display\<close> element of the category screen.\<close>

definition cs_balanceView :: "category_selection \<Rightarrow> balance_view" where
  "cs_balanceView s =
     (if cs_balanceLoading s then ViewLoading
      else if truthyStr (cs_balanceError s) then ViewError
      else (case cs_accountBalance s of
              None \<Rightarrow> ViewPlaceholder
            | Some b \<Rightarrow> ViewAmount b))"

text \<open>The effect runs again whenever \<open>user\<close> changes: a series of fetches.\<close>

fun cs_fetches ::
  "(json \<Rightarrow> number) \<Rightarrow> (user option \<times> (string \<times> json) list response) list
   \<Rightarrow> category_selection \<Rightarrow> category_selection" where
  "cs_fetches pf [] s = s"
| "cs_fetches pf ((u, r) # rest) s = cs_fetches pf rest (cs_fetchBalance pf u r s)"

section \<open>Market Resolver\<close>

text \<open>
  \<open>setPredictions(predictionData[category.id] || predictionData.random)\<close>. For an
  id that is not an inherited name the list looked up is stored. Under the id
  \<open>constructor\<close> the lookup finds the function \<open>Object\<close>; the state setter
  takes a function for an updater and applies it to the list held, and \<open>Object\<close>
  hands back the list it is given: the list stays as it was. The other inherited names
  leave something that is not a list of markets; the model keeps the list as it was for
  them as well, and no statement below speaks of them.
\<close>

definition storeSamples :: "category \<Rightarrow> swipe_state \<Rightarrow> swipe_state" where
  "storeSamples c s =
     (if cat_id c \<in> set objectPrototypeNames then s
      else s\<lparr> predictions := categoryPredictions c \<rparr>)"

definition seriesTickerMap :: "(string \<times> string) list" where
  "seriesTickerMap =
     [(''basketball'', ''KXNBAGAME''), (''football'', ''KXNFOOTBALL''),
      (''tennis'', ''KXNTENNIS''), (''crypto'', ''KXNCRYPTO''),
      (''stocks'', ''KXNSTOCKS''), (''random'', ''KXNBAGAME'')]"

text \<open>\<open>seriesTickerMap[category.id] || 'KXNBAGAME'\<close>.\<close>

definition seriesTicker :: "category \<Rightarrow> string" where
  "seriesTicker c =
     (case map_of seriesTickerMap (cat_id c) of Some t \<Rightarrow> t | None \<Rightarrow> ''KXNBAGAME'')"

text \<open>
  \<open>fetchMarkets\<close> up to its \<open>await\<close>. Without keys it is over here: the sample list
  is stored and nothing is sent.
\<close>

definition fetchMarkets_start :: "category \<Rightarrow> user option \<Rightarrow> swipe_state \<Rightarrow> swipe_state" where
  "fetchMarkets_start c u s =
     (if \<not> hasKeys u then (storeSamples c s)\<lparr> isLoading := False \<rparr>
      else s\<lparr> isLoading := True, error := None,
              sent := sent s @ [MarketsRequest (apiKeyOf u) (privateKeyOf u) (seriesTicker c) 100],
              marketsInFlight := True \<rparr>)"

text \<open>The \<open>catch\<close> block of \<open>fetchMarkets\<close>.\<close>

definition marketsFailed :: "category \<Rightarrow> string \<Rightarrow> swipe_state \<Rightarrow> swipe_state" where
  "marketsFailed c msg s =
     storeSamples c
       (s\<lparr> console := console s @ [ConsoleError (''Error fetching markets: '' @ msg)],
          error := Some msg \<rparr>)"

text \<open>
  \<open>fetchMarkets\<close> from its \<open>await\<close> on. The body of a success is its \<open>markets\<close>
  property, \<open>None\<close> when it is undefined (\<open>data.markets || []\<close>).
\<close>

definition fetchMarkets_settle ::
  "(json \<Rightarrow> number) \<Rightarrow> category \<Rightarrow> raw_market list option response \<Rightarrow> swipe_state
   \<Rightarrow> swipe_state" where
  "fetchMarkets_settle pf c r s =
     (let s1 =
        (case r of
           Ok ms \<Rightarrow>
             (let markets = (case ms of Some l \<Rightarrow> l | None \<Rightarrow> []);
                  formatted = formattedMarkets pf markets
              in if length formatted > 0 then s\<lparr> predictions := formatted \<rparr>
                 else storeSamples c s)
         | NotOk e \<Rightarrow> marketsFailed c (errorMessage e ''Failed to fetch markets'') s
         | Threw msg \<Rightarrow> marketsFailed c msg s)
      in s1\<lparr> isLoading := False, marketsInFlight := False \<rparr>)"


section \<open>Swipe Session Engine\<close>

definition bump :: "direction \<Rightarrow> stats \<Rightarrow> stats" where
  "bump d t = (case d of Yes \<Rightarrow> t\<lparr> yes := yes t + 1 \<rparr> | No \<Rightarrow> t\<lparr> no := no t + 1 \<rparr>)"

text \<open>\<open>setTimeout(() => { setCurrentIndex(prev => prev + 1); setSwipeDirection(null) }, 300)\<close>.\<close>

definition scheduleAdvance :: "swipe_state \<Rightarrow> swipe_state" where
  "scheduleAdvance s = s\<lparr> timeouts := timeouts s @ [AdvanceCard] \<rparr>"

text \<open>
  \<open>currentPrediction?.ticker && user?.kalshiApiKey && user?.kalshiPrivateKey\<close>, the
  index being in range.
\<close>

definition placesOrder :: "user option \<Rightarrow> swipe_state \<Rightarrow> bool" where
  "placesOrder u s = (truthyStr (ticker (predictions s ! currentIndex s)) \<and> hasKeys u)"

text \<open>
  \<open>handleSwipe\<close> up to its \<open>await\<close>, or to its end when no order is placed. The
  timeout is set only after the \<open>try\<close> block, so a call that places an order has not
  scheduled the advance yet.
\<close>

definition handleSwipe :: "user option \<Rightarrow> direction \<Rightarrow> swipe_state \<Rightarrow> swipe_state" where
  "handleSwipe u d s =
     (if currentIndex s \<ge> length (predictions s) then s
      else
        (let s1 = s\<lparr> swipeDirection := Some d, stats := bump d (stats s) \<rparr>
         in if placesOrder u s then
              s1\<lparr> sent := sent s1 @
                     [PlaceOrderRequest (apiKeyOf u) (privateKeyOf u)
                        (the (ticker (predictions s ! currentIndex s))) d 1],
                  ordersInFlight := ordersInFlight s1 + 1 \<rparr>
            else scheduleAdvance s1))"

text \<open>\<open>handleSwipe\<close> from its \<open>await\<close> on: one console line, then the timeout.\<close>

definition orderLine :: "unit response \<Rightarrow> console_line" where
  "orderLine r =
     (case r of
        Ok x \<Rightarrow> ConsoleLog ''Order placed successfully:''
      | NotOk e \<Rightarrow> ConsoleError (''Order failed: '' @ (case e of None \<Rightarrow> ''undefined'' | Some m \<Rightarrow> m))
      | Threw msg \<Rightarrow> ConsoleError (''Error placing order: '' @ msg))"

definition handleSwipe_resume :: "unit response \<Rightarrow> swipe_state \<Rightarrow> swipe_state" where
  "handleSwipe_resume r s =
     scheduleAdvance (s\<lparr> console := console s @ [orderLine r],
                         ordersInFlight := ordersInFlight s - 1 \<rparr>)"

text \<open>The skip: \<open>setCurrentIndex(prev => prev + 1); setSwipeDirection(null)\<close>.\<close>

definition skip :: "swipe_state \<Rightarrow> swipe_state" where
  "skip s = s\<lparr> currentIndex := currentIndex s + 1, swipeDirection := None \<rparr>"

datatype key = ArrowLeft | ArrowRight | Space | OtherKey

definition handleKeyPress :: "user option \<Rightarrow> key \<Rightarrow> swipe_state \<Rightarrow> swipe_state" where
  "handleKeyPress u k s =
     (if currentIndex s \<ge> length (predictions s) then s
      else (case k of
              ArrowLeft \<Rightarrow> handleSwipe u No s
            | ArrowRight \<Rightarrow> handleSwipe u Yes s
            | Space \<Rightarrow> skip s
            | OtherKey \<Rightarrow> s))"

definition resetSession :: "swipe_state \<Rightarrow> swipe_state" where
  "resetSession s =
     s\<lparr> currentIndex := 0, stats := \<lparr> yes = 0, no = 0 \<rparr>, isLoading := True,
        timeouts := timeouts s @ [LoadingDone] \<rparr>"

text \<open>What the component renders: the three \<open>return\<close>s, in their order.\<close>

datatype screen = LoadingScreen | CompleteScreen | CardScreen

definition screen :: "swipe_state \<Rightarrow> screen" where
  "screen s =
     (if isLoading s then LoadingScreen
      else if currentIndex s \<ge> length (predictions s) then CompleteScreen
      else CardScreen)"

text \<open>A timeout callback runs.\<close>

definition fire :: "timeout \<Rightarrow> swipe_state \<Rightarrow> swipe_state" where
  "fire t s =
     (case t of
        AdvanceCard \<Rightarrow> s\<lparr> currentIndex := currentIndex s + 1, swipeDirection := None \<rparr>
      | LoadingDone \<Rightarrow> s\<lparr> isLoading := False \<rparr>)"

text \<open>
  The discrete triggers of the event loop. A button can be clicked only on the screen
  that shows it; the key handler listens on the window whatever the screen; a timeout
  fires only if it is scheduled, a response arrives only if its request is outstanding.
  An event that cannot happen in a state leaves the state as it is.
\<close>

datatype event =
    ClickYes
  | ClickNo
  | ClickSkip
  | ClickReset
  | KeyDown key
  | TimeoutFires timeout
  | OrderSettles "unit response"
  | MarketsSettle "raw_market list option response"
  | BalanceSettles "(string \<times> json) list response"

definition step ::
  "(json \<Rightarrow> number) \<Rightarrow> category \<Rightarrow> user option \<Rightarrow> event \<Rightarrow> swipe_state \<Rightarrow> swipe_state" where
  "step pf c u e s =
     (case e of
        ClickYes \<Rightarrow> if screen s = CardScreen then handleSwipe u Yes s else s
      | ClickNo \<Rightarrow> if screen s = CardScreen then handleSwipe u No s else s
      | ClickSkip \<Rightarrow> if screen s = CardScreen then skip s else s
      | ClickReset \<Rightarrow> if screen s = CompleteScreen then resetSession s else s
      | KeyDown k \<Rightarrow> handleKeyPress u k s
      | TimeoutFires t \<Rightarrow>
          if t \<in> set (timeouts s) then fire t (s\<lparr> timeouts := remove1 t (timeouts s) \<rparr>)
          else s
      | OrderSettles r \<Rightarrow> if ordersInFlight s > 0 then handleSwipe_resume r s else s
      | MarketsSettle r \<Rightarrow> if marketsInFlight s then fetchMarkets_settle pf c r s else s
      | BalanceSettles r \<Rightarrow> if balanceInFlight s then fetchBalance_settle pf r s else s)"

text \<open>The component mounts: both effects run up to their \<open>await\<close>, balance first.\<close>

definition mount :: "category \<Rightarrow> user option \<Rightarrow> swipe_state" where
  "mount c u = fetchMarkets_start c u (fetchBalance_start u initialState)"

fun run ::
  "(json \<Rightarrow> number) \<Rightarrow> category \<Rightarrow> user option \<Rightarrow> event list \<Rightarrow> swipe_state \<Rightarrow> swipe_state" where
  "run pf c u [] s = s"
| "run pf c u (e # es) s = run pf c u es (step pf c u e s)"


text \<open>The user's own requests to vote or to skip, by button or by key.\<close>

fun isRequest :: "event \<Rightarrow> bool" where
  "isRequest ClickYes = True"
| "isRequest ClickNo = True"
| "isRequest ClickSkip = True"
| "isRequest (KeyDown ArrowLeft) = True"
| "isRequest (KeyDown ArrowRight) = True"
| "isRequest (KeyDown Space) = True"
| "isRequest e = False"


section \<open>The catalogue and the logged-in user\<close>

definition basketball :: category where
  "basketball = \<lparr> cat_id = ''basketball'', cat_name = ''Basketball'',
                  cat_description = ''NBA, EuroLeague & college games'' \<rparr>"

definition categories :: "category list" where
  "categories =
     [\<lparr> cat_id = ''football'', cat_name = ''Football'',
        cat_description = ''Premier League, Champions League & more'' \<rparr>,
      basketball,
      \<lparr> cat_id = ''tennis'', cat_name = ''Tennis'',
        cat_description = ''Grand Slams & ATP/WTA tours'' \<rparr>,
      \<lparr> cat_id = ''crypto'', cat_name = ''Crypto'',
        cat_description = ''Bitcoin, Ethereum & altcoins'' \<rparr>,
      \<lparr> cat_id = ''stocks'', cat_name = ''Stocks'',
        cat_description = ''Tech, finance & market trends'' \<rparr>,
      \<lparr> cat_id = ''random'', cat_name = ''Random'',
        cat_description = ''Mix of all categories'' \<rparr>]"

text \<open>The user object that \<open>Login\<close> hands to \<open>onLogin\<close> for the two keys entered.\<close>

definition loggedIn :: "string \<Rightarrow> string \<Rightarrow> user" where
  "loggedIn apiKey privateKey =
     \<lparr> username = ''User'', email = ''user@predswipe.com'',
       kalshiApiKey = Some apiKey, kalshiPrivateKey = Some privateKey \<rparr>"

text \<open>A raw market carrying the ticker that the source gives as its example of the format.\<close>

definition sasMarket :: raw_market where
  "sasMarket = \<lparr> raw_ticker = Some ''KXNBAGAME-25OCT30MIASAS-SAS'', raw_title = None,
                  raw_yes_bid = Some (JNum (Finite 40)), raw_no_bid = None,
                  raw_yes_ask = None, raw_no_ask = None \<rparr>"

section \<open>Invariants of a session\<close>


text \<open>While the listing is outstanding there is no card to act on.\<close>

definition unlisted :: "swipe_state \<Rightarrow> bool" where
  "unlisted s = (if marketsInFlight s then predictions s = [] else True)"


section \<open>The ticker parser on the two worked examples\<close>




section \<open>The tally, the cursor and the advances still pending\<close>


lemma count_pos: "t \<in> set xs \<Longrightarrow> 0 < count_list xs t"
  by (induction xs) auto

lemma count_remove1_same: "t \<in> set xs \<Longrightarrow> Suc (count_list (remove1 t xs) t) = count_list xs t"
  using count_pos [of t xs] by simp














lemma unlisted_handleSwipe: "unlisted s \<Longrightarrow> unlisted (handleSwipe u d s)"
  by (simp add: unlisted_def handleSwipe_def scheduleAdvance_def Let_def)

lemma unlisted_handleKeyPress: "unlisted s \<Longrightarrow> unlisted (handleKeyPress u k s)"
  by (cases k) (simp_all add: handleKeyPress_def unlisted_handleSwipe, simp add: unlisted_def skip_def)

lemma unlisted_fire: "unlisted s \<Longrightarrow> unlisted (fire t (s\<lparr> timeouts := ts \<rparr>))"
  by (cases t) (simp_all add: unlisted_def fire_def)

lemma unlisted_markets: "unlisted (fetchMarkets_settle pf c r s)"
  by (simp add: unlisted_def fetchMarkets_settle_def storeSamples_def Let_def)

lemma unlisted_balance: "unlisted s \<Longrightarrow> unlisted (fetchBalance_settle pf r s)"
  by (cases r) (simp_all add: unlisted_def fetchBalance_settle_def Let_def)

lemma unlisted_step: "unlisted s \<Longrightarrow> unlisted (step pf c u e s)"
proof (cases e)
  case ClickSkip
  assume "unlisted s" then show ?thesis using ClickSkip by (simp add: step_def unlisted_def skip_def)
next
  case ClickReset
  assume "unlisted s" then show ?thesis using ClickReset by (simp add: step_def unlisted_def resetSession_def)
next
  case (OrderSettles r)
  assume "unlisted s" then show ?thesis using OrderSettles
    by (simp add: step_def unlisted_def handleSwipe_resume_def scheduleAdvance_def)
qed (simp_all add: step_def unlisted_handleSwipe unlisted_handleKeyPress unlisted_fire
       unlisted_markets unlisted_balance)

lemma unlisted_run: "unlisted s \<Longrightarrow> unlisted (run pf c u evs s)"
  by (induction evs arbitrary: s) (simp_all add: unlisted_step)

lemma unlisted_mount: "unlisted (mount c u)"
  by (simp add: unlisted_def mount_def fetchMarkets_start_def storeSamples_def fetchBalance_start_def initialState_def)















lemma mount_basketball:
  "mount basketball None =
     initialState\<lparr> predictions := categoryPredictions basketball, isLoading := False,
                    balanceLoading := False \<rparr>"
  by (simp add: mount_def fetchMarkets_start_def storeSamples_def objectPrototypeNames_def
      basketball_def fetchBalance_start_def hasKeys_def)

lemma length_basketball: "length (categoryPredictions basketball) = 8"
  by (simp add: categoryPredictions_def basketball_def predictionData_def)





section \<open>Which requests the engine ignores\<close>

lemma handleSwipe_done: "length (predictions s) \<le> currentIndex s \<Longrightarrow> handleSwipe u d s = s"
  by (simp add: handleSwipe_def)

lemma handleKeyPress_done: "length (predictions s) \<le> currentIndex s \<Longrightarrow> handleKeyPress u k s = s"
  by (simp add: handleKeyPress_def)

lemma request_done:
  assumes "isRequest e" and "length (predictions s) \<le> currentIndex s"
  shows "step pf c u e s = s"
proof (cases e)
  case (KeyDown k)
  with assms show ?thesis by (simp add: step_def handleKeyPress_done)
qed (use assms in \<open>simp_all add: step_def screen_def handleSwipe_done\<close>)

lemma handleSwipe_accepts:
  assumes "currentIndex s < length (predictions s)"
  shows "stats (handleSwipe u d s) = bump d (stats s)"
    and "swipeDirection (handleSwipe u d s) = Some d"
    and "currentIndex (handleSwipe u d s) = currentIndex s"
  using assms by (simp_all add: handleSwipe_def scheduleAdvance_def Let_def)

lemma sent_handleSwipe:
  "length (sent (handleSwipe u d s)) \<le> Suc (length (sent s))
   \<and> take (length (sent s)) (sent (handleSwipe u d s)) = sent s"
  by (simp add: handleSwipe_def scheduleAdvance_def Let_def)

lemma sent_handleKeyPress:
  "length (sent (handleKeyPress u k s)) \<le> Suc (length (sent s))
   \<and> take (length (sent s)) (sent (handleKeyPress u k s)) = sent s"
  by (cases k) (simp_all add: handleKeyPress_def sent_handleSwipe skip_def)

lemma sent_fire: "sent (fire t s) = sent s"
  by (cases t) (simp_all add: fire_def)

lemma sent_resume: "sent (handleSwipe_resume r s) = sent s"
  by (simp add: handleSwipe_resume_def scheduleAdvance_def)

lemma sent_markets: "sent (fetchMarkets_settle pf c r s) = sent s"
  by (cases r) (simp_all add: fetchMarkets_settle_def storeSamples_def marketsFailed_def Let_def)

lemma sent_balance: "sent (fetchBalance_settle pf r s) = sent s"
  by (cases r) (simp_all add: fetchBalance_settle_def Let_def)

lemma sent_step:
  "length (sent (step pf c u e s)) \<le> Suc (length (sent s))
   \<and> take (length (sent s)) (sent (step pf c u e s)) = sent s"
  by (cases e) (simp_all add: step_def sent_handleSwipe sent_handleKeyPress sent_fire sent_resume
      sent_markets sent_balance skip_def resetSession_def)

lemma sent_order_settles: "sent (step pf c u (OrderSettles r) s) = sent s"
  by (simp add: step_def sent_resume)

lemma sent_timeout: "sent (step pf c u (TimeoutFires t) s) = sent s"
  by (simp add: step_def sent_fire)

text \<open>
  C3, as the code has it. A vote or a skip asked for while the cursor is at or past the end
  of the list leaves the state as it is, and so does one asked for while the listing is
  still outstanding after the mount (the list is empty then). The cursor is the only
  gate: whenever it is inside the list \<open>handleSwipe\<close> counts the vote and sets the
  direction, whatever \<open>swipeDirection\<close> and \<open>isLoading\<close> are, and leaves the cursor
  where it is. No event sends more than one request, and neither the arrival of an order
  response nor a timeout sends any.
\<close>

theorem votes_gated_by_cursor_only:
  "(isRequest e \<longrightarrow> length (predictions s) \<le> currentIndex s \<longrightarrow> step pf c u e s = s)
   \<and> (isRequest e \<longrightarrow> marketsInFlight (run pf c u evs (mount c u)) \<longrightarrow>
        step pf c u e (run pf c u evs (mount c u)) = run pf c u evs (mount c u))
   \<and> (currentIndex s < length (predictions s) \<longrightarrow>
        stats (handleSwipe u d s) = bump d (stats s)
        \<and> swipeDirection (handleSwipe u d s) = Some d
        \<and> currentIndex (handleSwipe u d s) = currentIndex s)
   \<and> length (sent (step pf c u e s)) \<le> length (sent s) + 1
   \<and> take (length (sent s)) (sent (step pf c u e s)) = sent s
   \<and> sent (step pf c u (OrderSettles r) s) = sent s
   \<and> sent (step pf c u (TimeoutFires t) s) = sent s"
proof -
  have "unlisted (run pf c u evs (mount c u))"
    by (simp add: unlisted_run unlisted_mount)
  then have "marketsInFlight (run pf c u evs (mount c u)) \<Longrightarrow>
      length (predictions (run pf c u evs (mount c u))) \<le> currentIndex (run pf c u evs (mount c u))"
    by (simp add: unlisted_def split: if_splits)
  then have loading: "isRequest e \<Longrightarrow> marketsInFlight (run pf c u evs (mount c u)) \<Longrightarrow>
      step pf c u e (run pf c u evs (mount c u)) = run pf c u evs (mount c u)"
    by (simp add: request_done)
  have grow: "length (sent (step pf c u e s)) \<le> length (sent s) + 1"
    using sent_step [of pf c u e s] by simp
  have keep: "take (length (sent s)) (sent (step pf c u e s)) = sent s"
    by (simp add: sent_step)
  from loading grow keep show ?thesis
    by (auto simp: request_done handleSwipe_accepts sent_order_settles sent_timeout)
qed

lemma mount_initial_empty:
  "length (predictions initialState) \<le> currentIndex initialState"
  by (simp add: initialState_def)

lemma mount_keyed:
  "mount basketball (Some (loggedIn ''key'' ''pem'')) =
     initialState\<lparr> isLoading := True, error := None,
       sent := [BalanceRequest ''key'' ''pem'', MarketsRequest ''key'' ''pem'' ''KXNBAGAME'' 100],
       marketsInFlight := True, balanceInFlight := True \<rparr>"
  by (simp add: mount_def fetchMarkets_start_def storeSamples_def fetchBalance_start_def hasKeys_def loggedIn_def
      truthyStr_def apiKeyOf_def privateKeyOf_def initialState_def seriesTicker_def
      seriesTickerMap_def basketball_def)

text \<open>A key press before the list has arrived, and a vote on the first sample card.\<close>

theorem votes_gated_by_cursor_only_witness:
  "isRequest (KeyDown ArrowRight)
   \<and> length (predictions initialState) \<le> currentIndex initialState
   \<and> step (\<lambda>v. NaN) basketball None (KeyDown ArrowRight) initialState = initialState
   \<and> marketsInFlight (run (\<lambda>v. NaN) basketball (Some (loggedIn ''key'' ''pem'')) []
        (mount basketball (Some (loggedIn ''key'' ''pem''))))
   \<and> step (\<lambda>v. NaN) basketball (Some (loggedIn ''key'' ''pem'')) (KeyDown ArrowRight)
        (run (\<lambda>v. NaN) basketball (Some (loggedIn ''key'' ''pem'')) []
          (mount basketball (Some (loggedIn ''key'' ''pem''))))
       = run (\<lambda>v. NaN) basketball (Some (loggedIn ''key'' ''pem'')) []
          (mount basketball (Some (loggedIn ''key'' ''pem'')))
   \<and> currentIndex (mount basketball None) < length (predictions (mount basketball None))
   \<and> stats (handleSwipe None Yes (mount basketball None)) = bump Yes (stats (mount basketball None))
   \<and> swipeDirection (handleSwipe None Yes (mount basketball None)) = Some Yes
   \<and> currentIndex (handleSwipe None Yes (mount basketball None)) = currentIndex (mount basketball None)"
proof -
  have h1: "isRequest (KeyDown ArrowRight)"
    by simp
  have h2: "marketsInFlight (run (\<lambda>v. NaN) basketball (Some (loggedIn ''key'' ''pem'')) []
        (mount basketball (Some (loggedIn ''key'' ''pem''))))"
    by (simp add: mount_keyed)
  have h3: "currentIndex (mount basketball None) < length (predictions (mount basketball None))"
    by (simp add: mount_basketball initialState_def length_basketball)
  from h1 h2 h3 mount_initial_empty
    votes_gated_by_cursor_only [where e = "KeyDown ArrowRight" and s = initialState
      and pf = "\<lambda>v. NaN" and c = basketball and u = None and evs = "[]" and d = Yes]
    votes_gated_by_cursor_only [where e = "KeyDown ArrowRight" and s = "mount basketball None"
      and pf = "\<lambda>v. NaN" and c = basketball and u = "Some (loggedIn ''key'' ''pem'')"
      and evs = "[]" and d = Yes]
    votes_gated_by_cursor_only [where e = "KeyDown ArrowRight" and s = "mount basketball None"
      and pf = "\<lambda>v. NaN" and c = basketball and u = None
      and evs = "[]" and d = Yes]
  show ?thesis
    by simp
qed

text \<open>
  Two presses of the right arrow with no advance in between: after the first the direction
  is set and the cursor is 0; the second is accepted all the same and counts a second yes
  for the same card.
\<close>

theorem second_vote_on_same_card_accepted:
  "(let s1 = step (\<lambda>v. NaN) basketball None (KeyDown ArrowRight) (mount basketball None);
        s2 = step (\<lambda>v. NaN) basketball None (KeyDown ArrowRight) s1
    in swipeDirection s1 = Some Yes \<and> currentIndex s1 = 0 \<and> yes (stats s1) = 1
       \<and> currentIndex s2 = 0 \<and> yes (stats s2) = 2 \<and> s2 \<noteq> s1)"
  by (simp add: mount_basketball initialState_def step_def handleKeyPress_def handleSwipe_def
      placesOrder_def hasKeys_def scheduleAdvance_def length_basketball bump_def Let_def)

section \<open>A failed order\<close>





lemma keyed_hasKeys: "hasKeys (Some (loggedIn ''key'' ''pem''))"
  by (simp add: hasKeys_def loggedIn_def truthyStr_def)




section \<open>Reset\<close>

text \<open>
  C4, as the code has it. Clicking reset on the complete screen sets the cursor to 0 and
  the tally to zero and shows the loading screen, keeps the list of the session before and
  sends no request; when the 500 ms timeout fires the loading flag is cleared, on the same
  list.
\<close>

theorem reset_restarts_on_same_list:
  assumes "screen s = CompleteScreen"
  shows
    "(let r = step pf c u ClickReset s;
          r' = step pf c u (TimeoutFires LoadingDone) r
      in currentIndex r = 0 \<and> stats r = \<lparr> yes = 0, no = 0 \<rparr> \<and> isLoading r
         \<and> screen r = LoadingScreen
         \<and> predictions r = predictions s \<and> sent r = sent s
         \<and> marketsInFlight r = marketsInFlight s
         \<and> \<not> isLoading r' \<and> currentIndex r' = 0 \<and> stats r' = \<lparr> yes = 0, no = 0 \<rparr>
         \<and> predictions r' = predictions s \<and> sent r' = sent s
         \<and> marketsInFlight r' = marketsInFlight s)"
  using assms by (simp add: Let_def step_def resetSession_def screen_def fire_def)

lemma complete_sas:
  "run (\<lambda>v. NaN) basketball (Some (loggedIn ''key'' ''pem''))
     [MarketsSettle (Ok (Some [sasMarket])), KeyDown Space]
     (mount basketball (Some (loggedIn ''key'' ''pem'')))
   = initialState\<lparr> isLoading := False, error := None,
       sent := [BalanceRequest ''key'' ''pem'', MarketsRequest ''key'' ''pem'' ''KXNBAGAME'' 100],
       marketsInFlight := False, balanceInFlight := True,
       predictions := [formatMarket (\<lambda>v. NaN) sasMarket], currentIndex := 1 \<rparr>"
  by (simp add: mount_keyed step_def fetchMarkets_settle_def storeSamples_def formattedMarkets_def initialState_def
      handleKeyPress_def skip_def)

text \<open>A one-market live session, skipped to its end and reset.\<close>

theorem reset_restarts_on_same_list_witness:
  "(let u = Some (loggedIn ''key'' ''pem'');
        s = run (\<lambda>v. NaN) basketball u [MarketsSettle (Ok (Some [sasMarket])), KeyDown Space]
              (mount basketball u);
        r = step (\<lambda>v. NaN) basketball u ClickReset s
    in screen s = CompleteScreen \<and> currentIndex r = 0 \<and> stats r = \<lparr> yes = 0, no = 0 \<rparr>
       \<and> isLoading r \<and> predictions r = predictions s \<and> sent r = sent s
       \<and> marketsInFlight r = marketsInFlight s)"
proof -
  let ?u = "Some (loggedIn ''key'' ''pem'')"
  let ?s = "run (\<lambda>v. NaN) basketball ?u [MarketsSettle (Ok (Some [sasMarket])), KeyDown Space]
              (mount basketball ?u)"
  have h: "screen ?s = CompleteScreen"
    unfolding complete_sas by (simp add: initialState_def screen_def)
  from h reset_restarts_on_same_list [OF h, of "\<lambda>v. NaN" basketball ?u]
  show ?thesis
    by (simp add: Let_def)
qed

text \<open>
  With keys present a fresh resolution would send a listing request. After the reset none
  is outstanding, none was sent, and the list is the one of the session before.
\<close>

theorem reset_sends_no_listing_request:
  "(let u = Some (loggedIn ''key'' ''pem'');
        s = run (\<lambda>v. NaN) basketball u [MarketsSettle (Ok (Some [sasMarket])), KeyDown Space]
              (mount basketball u);
        r = step (\<lambda>v. NaN) basketball u ClickReset s
    in hasKeys u \<and> screen s = CompleteScreen
       \<and> \<not> (currentIndex r = 0 \<and> stats r = \<lparr> yes = 0, no = 0 \<rparr> \<and> isLoading r
             \<and> (marketsInFlight r \<or> sent r \<noteq> sent s \<or> predictions r \<noteq> predictions s)))"
  unfolding Let_def complete_sas
  by (simp add: keyed_hasKeys initialState_def screen_def step_def resetSession_def)



section \<open>The resolver and its fallback\<close>

text \<open>The catalogue's ids are exactly the keys of the sample table; one entry is shown.\<close>

lemma catalogue_ids: "map cat_id categories = map fst predictionData"
  by (simp add: categories_def basketball_def predictionData_def)

lemma shown_category: "filter (\<lambda>c. cat_id c = ''basketball'') categories = [basketball]"
  by (simp add: categories_def basketball_def)

lemma plain_catalogue: "list_all (\<lambda>c. cat_id c \<notin> set objectPrototypeNames) categories"
  by (simp add: categories_def basketball_def objectPrototypeNames_def)














section \<open>Prices\<close>

lemma price_formatMarket: "price (formatMarket pf m) = priceOf pf (raw_yes_bid m)"
  by (simp add: formatMarket_def split: prod.splits)

lemma price_of_nonzero_bid:
  "raw_yes_bid m = Some (JNum (Finite r)) \<Longrightarrow> r \<noteq> 0 \<Longrightarrow>
     price (formatMarket pf m) = Finite (r / 100)"
  by (simp add: price_formatMarket priceOf_def parseFloat_def)

lemma price_of_absent_bid: "raw_yes_bid m = None \<Longrightarrow> price (formatMarket pf m) = Finite (1 / 2)"
  by (simp add: price_formatMarket priceOf_def)

lemma price_in_unit_interval:
  "raw_yes_bid m = Some (JNum (Finite r)) \<Longrightarrow> 0 \<le> r \<Longrightarrow> r \<le> 100 \<Longrightarrow>
     inUnitInterval (price (formatMarket pf m))"
  by (cases "r = 0") (simp_all add: price_formatMarket priceOf_def parseFloat_def)

text \<open>
  C7 on the code. A live market whose \<open>yes_bid\<close> is present and equal to 0 gets the
  price 0.5, the default for an absent bid, not 0 / 100: the test \<open>market.yes_bid ?\<close>
  takes the number 0 for a missing field. For every other bid from 1 to 100 the price is
  the bid divided by 100 and lies in the unit interval, and an absent bid gives 0.5, as
  the three lemmas above say.
\<close>

theorem zero_bid_priced_as_absent:
  "price (formatMarket pf (sasMarket\<lparr> raw_yes_bid := Some (JNum (Finite 0)) \<rparr>)) = Finite (1 / 2)"
  by (simp add: price_formatMarket priceOf_def)

section \<open>Balance\<close>

lemma cs_balance_first:
  "getProp data ''balance'' = Some (JNum n) \<Longrightarrow> cs_balanceOf pf data = Some (div100 n)"
  by (simp add: cs_balanceOf_def centsToDecimal_def)

lemma cs_balance_cents_second:
  "getProp data ''balance'' = None \<Longrightarrow> getProp data ''balance_cents'' = Some (JNum n) \<Longrightarrow>
     cs_balanceOf pf data = Some (div100 n)"
  by (simp add: cs_balanceOf_def parseFloat_def)

lemma cs_account_balance_third:
  "getProp data ''balance'' = None \<Longrightarrow> getProp data ''balance_cents'' = None \<Longrightarrow>
     getProp data ''account_balance'' = Some (JNum n) \<Longrightarrow> cs_balanceOf pf data = Some n"
  by (simp add: cs_balanceOf_def parseFloat_def)

lemma cs_portfolio_balance_fourth:
  "getProp data ''balance'' = None \<Longrightarrow> getProp data ''balance_cents'' = None \<Longrightarrow>
     getProp data ''account_balance'' = None \<Longrightarrow>
     getProp data ''portfolio_balance'' = Some (JNum n) \<Longrightarrow> cs_balanceOf pf data = Some n"
  by (simp add: cs_balanceOf_def parseFloat_def)

lemma cs_last_resort:
  "getProp data ''balance'' = None \<Longrightarrow> getProp data ''balance_cents'' = None \<Longrightarrow>
     getProp data ''account_balance'' = None \<Longrightarrow> getProp data ''portfolio_balance'' = None \<Longrightarrow>
     cs_balanceOf pf data =
       (case filter numericField (map snd data) of
          [] \<Rightarrow> None
        | v # vs \<Rightarrow> Some (div100 (numberOf v)))"
  by (simp add: cs_balanceOf_def numericFields_def)

lemma balance_examples:
  "cs_balanceOf pf [(''balance'', JNum (Finite 5000))] = Some (Finite 50)"
  "cs_balanceOf pf [(''balance_cents'', JNum (Finite 1234))] = Some (Finite (1234 / 100))"
  "cs_balanceOf pf [(''status'', JStr ''ok''), (''available'', JNum (Finite 700))] = Some (Finite 7)"
  "balanceOf pf [(''balance'', JNum (Finite 5000))] = Some (Finite 50)"
  "balanceOf pf [(''balance_cents'', JNum (Finite 1234))] = Some (Finite (1234 / 100))"
  by (simp_all add: cs_balanceOf_def balanceOf_def getProp_def centsToDecimal_def parseFloat_def
      numericFields_def)

text \<open>
  C8 on the code. The two copies of \<open>fetchBalance\<close> differ. The one in
  CategorySelection checks \<open>balance\<close>, \<open>balance_cents\<close>, \<open>account_balance\<close>,
  \<open>portfolio_balance\<close> and then the first positive number, in that order (the lemmas
  above). The one in SwipeInterface stops after \<open>balance_cents\<close>: on a response that
  carries only \<open>account_balance\<close>, or only some other positive number, it finds no
  balance and the card screen keeps the placeholder, where the category screen shows
  12.50 and 7.00.
\<close>

theorem swipe_fetcher_ignores_account_balance:
  "balanceOf pf [(''account_balance'', JNum (Finite (25 / 2)))] = None
   \<and> accountBalance (fetchBalance pf (Some (loggedIn ''key'' ''pem''))
        (Ok [(''account_balance'', JNum (Finite (25 / 2)))]) initialState) = None
   \<and> balanceView (fetchBalance pf (Some (loggedIn ''key'' ''pem''))
        (Ok [(''account_balance'', JNum (Finite (25 / 2)))]) initialState) = ViewPlaceholder
   \<and> balanceOf pf [(''available'', JNum (Finite 700))] = None
   \<and> cs_balanceOf pf [(''account_balance'', JNum (Finite (25 / 2)))] = Some (Finite (25 / 2))
   \<and> cs_balanceOf pf [(''available'', JNum (Finite 700))] = Some (Finite 7)"
  by (simp add: balanceOf_def cs_balanceOf_def getProp_def fetchBalance_def fetchBalance_start_def
      fetchBalance_settle_def keyed_hasKeys usable_def initialState_def balanceView_def
      parseFloat_def numericFields_def)

section \<open>No keys, no balance request\<close>

text \<open>
  C9. When a key is missing or empty, either copy of \<open>fetchBalance\<close> only clears its
  loading flag: the rest of the state is as before, whatever the network would have
  answered, and in particular no request is added to those sent. From the initial state
  the balance stays null and the placeholder is shown; and a mount without keys leaves no
  request outstanding and none sent.
\<close>

theorem no_keys_no_balance_request:
  assumes "\<not> hasKeys u"
  shows "fetchBalance pf u r s = s\<lparr> balanceLoading := False \<rparr>
         \<and> cs_fetchBalance pf u r t = t\<lparr> cs_balanceLoading := False \<rparr>
         \<and> sent (fetchBalance pf u r s) = sent s
         \<and> cs_sent (cs_fetchBalance pf u r t) = cs_sent t
         \<and> accountBalance (fetchBalance pf u r initialState) = None
         \<and> cs_accountBalance (cs_fetchBalance pf u r cs_initialState) = None
         \<and> balanceView (fetchBalance pf u r initialState) = ViewPlaceholder
         \<and> cs_balanceView (cs_fetchBalance pf u r cs_initialState) = ViewPlaceholder
         \<and> \<not> balanceInFlight (mount c u) \<and> sent (mount c u) = []"
  using assms
  by (simp add: fetchBalance_def fetchBalance_start_def cs_fetchBalance_def initialState_def
      cs_initialState_def balanceView_def cs_balanceView_def truthyStr_def mount_def
      fetchMarkets_start_def storeSamples_def)

text \<open>
  An API key with an empty private key.
\<close>

theorem no_keys_no_balance_request_witness:
  "\<not> hasKeys (Some (loggedIn ''key'' []))
   \<and> fetchBalance (\<lambda>v. NaN) (Some (loggedIn ''key'' [])) (Ok [(''balance'', JNum (Finite 5000))])
        initialState = initialState\<lparr> balanceLoading := False \<rparr>
   \<and> cs_fetchBalance (\<lambda>v. NaN) (Some (loggedIn ''key'' [])) (Ok [(''balance'', JNum (Finite 5000))])
        cs_initialState = cs_initialState\<lparr> cs_balanceLoading := False \<rparr>
   \<and> sent (mount basketball (Some (loggedIn ''key'' []))) = []"
proof -
  have h: "\<not> hasKeys (Some (loggedIn ''key'' []))"
    by (simp add: hasKeys_def loggedIn_def truthyStr_def)
  from h no_keys_no_balance_request [OF h, of "\<lambda>v. NaN" "Ok [(''balance'', JNum (Finite 5000))]"
      initialState cs_initialState basketball]
  show ?thesis
    by simp
qed

section \<open>NaN is never stored as a balance\<close>

lemma usable_not_NaN: "usable b \<Longrightarrow> b \<noteq> Some NaN"
  by (cases b) (simp_all add: usable_def isNaN_def)

lemma not_usable: "b = None \<or> b = Some NaN \<Longrightarrow> \<not> usable b"
  by (auto simp: usable_def isNaN_def)

lemma ab_handleSwipe: "accountBalance (handleSwipe u d s) = accountBalance s"
  by (simp add: handleSwipe_def scheduleAdvance_def Let_def)

lemma ab_handleKeyPress: "accountBalance (handleKeyPress u k s) = accountBalance s"
  by (cases k) (simp_all add: handleKeyPress_def ab_handleSwipe skip_def)

lemma ab_fetchMarkets_settle: "accountBalance (fetchMarkets_settle pf c r s) = accountBalance s"
  by (cases r) (simp_all add: fetchMarkets_settle_def storeSamples_def marketsFailed_def Let_def)

lemma ab_fetchBalance_settle:
  "accountBalance s \<noteq> Some NaN \<Longrightarrow> accountBalance (fetchBalance_settle pf r s) \<noteq> Some NaN"
  by (cases r) (simp_all add: fetchBalance_settle_def usable_not_NaN Let_def)

lemma ab_fire: "accountBalance (fire t s) = accountBalance s"
  by (cases t) (simp_all add: fire_def)

lemma ab_step: "accountBalance s \<noteq> Some NaN \<Longrightarrow> accountBalance (step pf c u e s) \<noteq> Some NaN"
  by (cases e) (simp_all add: step_def ab_handleSwipe ab_handleKeyPress ab_fetchMarkets_settle
      ab_fetchBalance_settle ab_fire skip_def resetSession_def handleSwipe_resume_def
      scheduleAdvance_def)

lemma ab_run: "accountBalance s \<noteq> Some NaN \<Longrightarrow> accountBalance (run pf c u evs s) \<noteq> Some NaN"
  by (induction evs arbitrary: s) (simp_all add: ab_step)

lemma ab_mount: "accountBalance (mount c u) = None"
  by (simp add: mount_def fetchMarkets_start_def storeSamples_def fetchBalance_start_def initialState_def)

lemma cs_ab_eq:
  "cs_accountBalance (cs_fetchBalance pf u r t) =
     (case r of
        Ok data \<Rightarrow> if hasKeys u \<and> usable (cs_balanceOf pf data) then cs_balanceOf pf data
                   else cs_accountBalance t
      | NotOk e \<Rightarrow> cs_accountBalance t
      | Threw msg \<Rightarrow> cs_accountBalance t)"
  by (cases r) (simp_all add: cs_fetchBalance_def cs_failed_def Let_def)

lemma cs_ab_fetch:
  "cs_accountBalance t \<noteq> Some NaN \<Longrightarrow> cs_accountBalance (cs_fetchBalance pf u r t) \<noteq> Some NaN"
  by (cases r) (simp_all add: cs_ab_eq usable_not_NaN)

lemma cs_ab_fetches:
  "cs_accountBalance t \<noteq> Some NaN \<Longrightarrow> cs_accountBalance (cs_fetches pf frs t) \<noteq> Some NaN"
proof (induction frs arbitrary: t)
  case Nil
  then show ?case by simp
next
  case (Cons fr frs)
  obtain u r where fr: "fr = (u, r)"
    by (cases fr)
  from Cons.prems have "cs_accountBalance (cs_fetchBalance pf u r t) \<noteq> Some NaN"
    by (rule cs_ab_fetch)
  then show ?case
    unfolding fr cs_fetches.simps by (rule Cons.IH)
qed

lemma cs_view_amount:
  "cs_balanceView t = ViewAmount b \<Longrightarrow> cs_accountBalance t = Some b"
  by (simp add: cs_balanceView_def split: if_splits option.splits)

lemma view_amount: "balanceView s \<noteq> ViewAmount NaN"
  by (simp add: balanceView_def isNaN_def split: option.splits)

lemma unusable_kept:
  "balanceOf pf data = None \<or> balanceOf pf data = Some NaN \<Longrightarrow>
     accountBalance (fetchBalance pf u (Ok data) s) = accountBalance s"
  using not_usable [of "balanceOf pf data"]
  by (simp add: fetchBalance_def fetchBalance_start_def fetchBalance_settle_def)

lemma cs_unusable_kept:
  "cs_balanceOf pf data = None \<or> cs_balanceOf pf data = Some NaN \<Longrightarrow>
     cs_accountBalance (cs_fetchBalance pf u (Ok data) t) = cs_accountBalance t"
  using not_usable [of "cs_balanceOf pf data"] by (simp add: cs_ab_eq)

lemma cs_unusable_error:
  "hasKeys u \<Longrightarrow> cs_balanceOf pf data = None \<or> cs_balanceOf pf data = Some NaN \<Longrightarrow>
     cs_balanceView (cs_fetchBalance pf u (Ok data) t) = ViewError"
  using not_usable [of "cs_balanceOf pf data"]
  by (simp add: cs_fetchBalance_def cs_failed_def Let_def cs_balanceView_def truthyStr_def)

lemma unusable_placeholder:
  "hasKeys u \<Longrightarrow> accountBalance s = None \<Longrightarrow>
     balanceOf pf data = None \<or> balanceOf pf data = Some NaN \<Longrightarrow>
     balanceView (fetchBalance pf u (Ok data) s) = ViewPlaceholder"
  using not_usable [of "balanceOf pf data"]
  by (simp add: fetchBalance_def fetchBalance_start_def fetchBalance_settle_def balanceView_def)

text \<open>
  C10. Whatever happens after the mount, the balance stored by SwipeInterface is never
  NaN, and its view never shows NaN as an amount in any state. The same holds for
  CategorySelection after any series of fetches. When the balance read from a success
  response is null or NaN, the stored balance is left as it was; SwipeInterface then
  shows the placeholder (no balance having been stored before) and CategorySelection the
  error indicator.
\<close>

theorem stored_balance_is_never_NaN:
  "accountBalance (run pf c u evs (mount c u)) \<noteq> Some NaN
   \<and> balanceView s \<noteq> ViewAmount NaN
   \<and> cs_accountBalance (cs_fetches pf frs cs_initialState) \<noteq> Some NaN
   \<and> cs_balanceView (cs_fetches pf frs cs_initialState) \<noteq> ViewAmount NaN
   \<and> (balanceOf pf data = None \<or> balanceOf pf data = Some NaN \<longrightarrow>
        accountBalance (fetchBalance pf u (Ok data) s) = accountBalance s)
   \<and> (cs_balanceOf pf data = None \<or> cs_balanceOf pf data = Some NaN \<longrightarrow>
        cs_accountBalance (cs_fetchBalance pf u (Ok data) t) = cs_accountBalance t)
   \<and> (hasKeys u \<longrightarrow> accountBalance s = None \<longrightarrow>
        balanceOf pf data = None \<or> balanceOf pf data = Some NaN \<longrightarrow>
        balanceView (fetchBalance pf u (Ok data) s) = ViewPlaceholder)
   \<and> (hasKeys u \<longrightarrow> cs_balanceOf pf data = None \<or> cs_balanceOf pf data = Some NaN \<longrightarrow>
        cs_balanceView (cs_fetchBalance pf u (Ok data) t) = ViewError)"
proof -
  have a: "accountBalance (run pf c u evs (mount c u)) \<noteq> Some NaN"
    by (simp add: ab_run ab_mount)
  have b: "cs_accountBalance (cs_fetches pf frs cs_initialState) \<noteq> Some NaN"
    by (simp add: cs_ab_fetches cs_initialState_def)
  then have c: "cs_balanceView (cs_fetches pf frs cs_initialState) \<noteq> ViewAmount NaN"
    using cs_view_amount by blast
  from a b c show ?thesis
    using unusable_kept [of pf data u s] cs_unusable_kept [of pf data u t]
      unusable_placeholder [of u s pf data] cs_unusable_error [of u pf data t]
    by (simp add: view_amount)
qed

text \<open>
  A response whose \<open>balance\<close> is a string that \<open>parseFloat\<close> reads as NaN.
\<close>

theorem stored_balance_is_never_NaN_witness:
  "hasKeys (Some (loggedIn ''key'' ''pem''))
   \<and> accountBalance initialState = None
   \<and> balanceOf (\<lambda>v. NaN) [(''balance'', JStr ''n/a'')] = Some NaN
   \<and> cs_balanceOf (\<lambda>v. NaN) [(''balance'', JStr ''n/a'')] = Some NaN
   \<and> accountBalance (fetchBalance (\<lambda>v. NaN) (Some (loggedIn ''key'' ''pem''))
        (Ok [(''balance'', JStr ''n/a'')]) initialState) = None
   \<and> balanceView (fetchBalance (\<lambda>v. NaN) (Some (loggedIn ''key'' ''pem''))
        (Ok [(''balance'', JStr ''n/a'')]) initialState) = ViewPlaceholder
   \<and> cs_accountBalance (cs_fetchBalance (\<lambda>v. NaN) (Some (loggedIn ''key'' ''pem''))
        (Ok [(''balance'', JStr ''n/a'')]) cs_initialState) = None
   \<and> cs_balanceView (cs_fetchBalance (\<lambda>v. NaN) (Some (loggedIn ''key'' ''pem''))
        (Ok [(''balance'', JStr ''n/a'')]) cs_initialState) = ViewError"
proof -
  have h1: "balanceOf (\<lambda>v. NaN) [(''balance'', JStr ''n/a'')] = Some NaN"
    by (simp add: balanceOf_def getProp_def centsToDecimal_def parseFloat_def)
  have h2: "cs_balanceOf (\<lambda>v. NaN) [(''balance'', JStr ''n/a'')] = Some NaN"
    by (simp add: cs_balanceOf_def getProp_def centsToDecimal_def parseFloat_def)
  have h3: "accountBalance initialState = None" "cs_accountBalance cs_initialState = None"
    by (simp_all add: initialState_def cs_initialState_def)
  from h1 h2 h3 keyed_hasKeys
    stored_balance_is_never_NaN [where pf = "\<lambda>v. NaN" and data = "[(''balance'', JStr ''n/a'')]"
      and u = "Some (loggedIn ''key'' ''pem'')" and s = initialState and t = cs_initialState]
  show ?thesis
    by simp
qed


end
